theory Spec2Isabelle
  imports Main
begin

section \<open>The input-control state reducer\<close>

text \<open>
  A shallow embedding of \<^verbatim>\<open>packages/components/src/input-control/reducer/reducer.ts\<close>.

  JavaScript values that can sit in the \<^verbatim>\<open>value\<close> and \<^verbatim>\<open>error\<close> properties are
  \<^verbatim>\<open>undefined\<close>, \<^verbatim>\<open>null\<close>, a string, or a number. A property that is absent from an object
  reads as \<^verbatim>\<open>undefined\<close>, so an absent property is \<open>JUndefined\<close> too. Numbers are kept
  abstract (the type parameter \<open>'n\<close>); their conversion to a string is a parameter of the
  functions that need it.
\<close>

datatype 'n jsval = JUndefined | JNull | JStr string | JNum 'n

text \<open>The handle of a DOM or synthetic event. The reducer never looks inside an event.\<close>

type_synonym event = nat

text \<open>
  \<^verbatim>\<open>InputState\<close>. The field \<^verbatim>\<open>value\<close> is written \<open>value'\<close>. The three flags are
  declared \<^verbatim>\<open>boolean\<close> and are modelled as \<open>bool\<close>.
\<close>

record 'n inputState =
  error :: "'n jsval"
  initialValue :: "'n jsval"
  isDirty :: bool
  isDragging :: bool
  isPressEnterToChange :: bool
  value' :: "'n jsval"

text \<open>
  The tags of \<^verbatim>\<open>./actions\<close>, one constructor for each constant the reducer and the hook
  name. \<open>OTHER t\<close> is any tag that is none of these ten.
\<close>

datatype actionType =
    PRESS_UP | PRESS_DOWN | PRESS_ENTER
  | DRAG_START | DRAG | DRAG_END
  | CHANGE | COMMIT | RESET | INVALIDATE
  | OTHER string

text \<open>
  \<^verbatim>\<open>action.payload\<close>: the properties the reducer and the hook read or write. A tagged
  action always has a payload object; a property it lacks is \<open>JUndefined\<close> (\<open>None\<close> for the
  event).
\<close>

record 'n payload =
  payloadValue :: "'n jsval"
  payloadError :: "'n jsval"
  payloadEvent :: "event option"

text \<open>
  An action either has a \<^verbatim>\<open>type\<close> property (\<open>Tagged\<close>) or has none (\<open>Untagged\<close>), in which
  case only its \<^verbatim>\<open>value\<close> property is read.
\<close>

datatype 'n action = Tagged actionType "'n payload" | Untagged "'n jsval"

type_synonym 'n stateReducer = "'n inputState \<Rightarrow> 'n action \<Rightarrow> 'n inputState"

text \<open>
  A template literal with one substitution, \<^verbatim>\<open>`${ value }`\<close>: the ToString conversion of
  the value.
\<close>

definition templateString :: "('n \<Rightarrow> string) \<Rightarrow> 'n jsval \<Rightarrow> string" where
  "templateString numberToString v =
     (case v of
        JUndefined \<Rightarrow> ''undefined''
      | JNull \<Rightarrow> ''null''
      | JStr s \<Rightarrow> s
      | JNum n \<Rightarrow> numberToString n)"

text \<open>The nullish coalescing operator, \<^verbatim>\<open>a ?? b\<close>.\<close>

definition nullish :: "'n jsval \<Rightarrow> 'n jsval \<Rightarrow> 'n jsval" where
  "nullish a b = (if a = JUndefined \<or> a = JNull then b else a)"

text \<open>
  Modelled from the spec: \<^verbatim>\<open>initialStateReducer\<close> of \<^verbatim>\<open>./state\<close>, which is not among the
  sources. The spec: "The default override is the identity function."
\<close>

definition initialStateReducer :: "'n stateReducer" where
  "initialStateReducer state action = state"

text \<open>
  \<^verbatim>\<open>inputControlStateReducer\<close>, lines 51 to 128. \<open>nextState\<close> starts as a copy of \<open>state\<close>;
  the untagged branch returns before the switch and before the composed reducer is called;
  a tag with no \<^verbatim>\<open>case\<close> leaves \<open>nextState\<close> as the copy.
\<close>

definition inputControlStateReducer ::
    "('n \<Rightarrow> string) \<Rightarrow> 'n stateReducer \<Rightarrow> 'n stateReducer" where
  "inputControlStateReducer numberToString composedStateReducers state action =
     (let nextState = state in
      case action of
        Untagged v \<Rightarrow>
          (let value1 = (if v = JUndefined then value' state else v);
               value2 = nullish value1 (JStr '''');
               value3 = (if value2 \<noteq> JStr ''''
                         then JStr (templateString numberToString value2) else value2)
           in state\<lparr>value' := value3\<rparr>)
      | Tagged ty p \<Rightarrow>
          composedStateReducers
            (case ty of
               PRESS_UP \<Rightarrow> nextState\<lparr>isDirty := False\<rparr>
             | PRESS_DOWN \<Rightarrow> nextState\<lparr>isDirty := False\<rparr>
             | DRAG_START \<Rightarrow> nextState\<lparr>isDragging := True\<rparr>
             | DRAG_END \<Rightarrow> nextState\<lparr>isDragging := False\<rparr>
             | CHANGE \<Rightarrow>
                 (let changed = nextState\<lparr>error := JNull, value' := payloadValue p\<rparr>
                  in if isPressEnterToChange state then changed\<lparr>isDirty := True\<rparr>
                     else changed)
             | COMMIT \<Rightarrow> nextState\<lparr>value' := payloadValue p, isDirty := False\<rparr>
             | RESET \<Rightarrow>
                 nextState\<lparr>error := JNull, isDirty := False,
                   value' := nullish (payloadValue p) (initialValue state)\<rparr>
             | INVALIDATE \<Rightarrow> nextState\<lparr>error := payloadError p\<rparr>
             | _ \<Rightarrow> nextState)
            action)"

text \<open>
  The base transition: the reducer the hook builds when no override is passed, that is, with
  the default \<open>initialStateReducer\<close>.
\<close>

definition baseTransition :: "('n \<Rightarrow> string) \<Rightarrow> 'n stateReducer" where
  "baseTransition numberToString = inputControlStateReducer numberToString initialStateReducer"

subsection \<open>Actions as they arrive at run time\<close>









subsection \<open>Constructing the state\<close>

text \<open>
  \<^verbatim>\<open>Partial< InputState >\<close>: every property may be absent (\<open>None\<close>).
\<close>

record 'n partialState =
  errorOpt :: "'n jsval option"
  initialValueOpt :: "'n jsval option"
  isDirtyOpt :: "bool option"
  isDraggingOpt :: "bool option"
  isPressEnterToChangeOpt :: "bool option"
  valueOpt :: "'n jsval option"

text \<open>A full state read as a partial one: every property is present.\<close>

definition asPartial :: "'n inputState \<Rightarrow> 'n partialState" where
  "asPartial s =
     \<lparr>errorOpt = Some (error s), initialValueOpt = Some (initialValue s),
      isDirtyOpt = Some (isDirty s), isDraggingOpt = Some (isDragging s),
      isPressEnterToChangeOpt = Some (isPressEnterToChange s), valueOpt = Some (value' s)\<rparr>"

text \<open>Reading a property that may be absent.\<close>

definition readProp :: "'n jsval option \<Rightarrow> 'n jsval" where
  "readProp x = (case x of None \<Rightarrow> JUndefined | Some v \<Rightarrow> v)"

text \<open>Object spread of a partial state over a full one: \<^verbatim>\<open>{ ...s, ...p }\<close>.\<close>

definition spread :: "'n inputState \<Rightarrow> 'n partialState \<Rightarrow> 'n inputState" where
  "spread s p =
     \<lparr>error = (case errorOpt p of None \<Rightarrow> error s | Some x \<Rightarrow> x),
      initialValue = (case initialValueOpt p of None \<Rightarrow> initialValue s | Some x \<Rightarrow> x),
      isDirty = (case isDirtyOpt p of None \<Rightarrow> isDirty s | Some x \<Rightarrow> x),
      isDragging = (case isDraggingOpt p of None \<Rightarrow> isDragging s | Some x \<Rightarrow> x),
      isPressEnterToChange =
        (case isPressEnterToChangeOpt p of None \<Rightarrow> isPressEnterToChange s | Some x \<Rightarrow> x),
      value' = (case valueOpt p of None \<Rightarrow> value' s | Some x \<Rightarrow> x)\<rparr>"

text \<open>
  Modelled from the spec: the constant \<^verbatim>\<open>initialInputControlState\<close> of \<^verbatim>\<open>./state\<close>, which is
  not among the sources. The spec fixes two of its fields: a default construction has
  \<^verbatim>\<open>isPressEnterToChange: false\<close>, and a change dispatched on it, which leaves the dirty flag
  alone in that mode, ends with \<^verbatim>\<open>isDirty: false\<close>. The fields the spec leaves open are those
  of the argument.
\<close>

definition initialInputControlState :: "'n inputState \<Rightarrow> 'n inputState" where
  "initialInputControlState rest = rest\<lparr>isDirty := False, isPressEnterToChange := False\<rparr>"

text \<open>
  \<^verbatim>\<open>mergeInitialState\<close>, lines 29 to 39. The first argument is the module constant
  \<^verbatim>\<open>initialInputControlState\<close>; the second is the parameter, \<open>None\<close> when the caller passes
  none, in which case the constant is the default. \<^verbatim>\<open>initialValue\<close> is the \<^verbatim>\<open>value\<close> of the
  parameter, not of the merged object.
\<close>

definition mergeInitialState :: "'n inputState \<Rightarrow> 'n partialState option \<Rightarrow> 'n inputState" where
  "mergeInitialState defaults arg =
     (let initialState = (case arg of None \<Rightarrow> asPartial defaults | Some p \<Rightarrow> p);
          v = readProp (valueOpt initialState)
      in (spread defaults initialState)\<lparr>initialValue := v\<rparr>)"

subsection \<open>The hook\<close>

text \<open>
  \<^verbatim>\<open>useInputControlStateReducer\<close>, lines 145 to 262. What the hook keeps between renders:
  the state held by \<^verbatim>\<open>useReducer\<close>, the three refs, and the dependency values of the last
  render that ran the layout effects (\<open>None\<close> before the first one), by which the effects
  with a dependency array \<^verbatim>\<open>[ state.value ]\<close> and \<^verbatim>\<open>[ initialState.value ]\<close> are run or skipped.
\<close>

record 'n controller =
  state :: "'n inputState"
  refEvent :: "event option"
  currentState :: "'n inputState"
  currentValueProp :: "'n jsval"
  lastDeps :: "('n jsval \<times> 'n jsval) option"

text \<open>
  The first render: the reducer state is \<open>mergeInitialState\<close> of the initial state, the refs
  are initialised as on lines 217 to 219.
\<close>

definition mount :: "'n inputState \<Rightarrow> 'n partialState option \<Rightarrow> 'n controller" where
  "mount defaults arg =
     (let initialState = (case arg of None \<Rightarrow> asPartial defaults | Some p \<Rightarrow> p);
          s = mergeInitialState defaults (Some initialState)
      in \<lparr>state = s, refEvent = None, currentState = s,
          currentValueProp = readProp (valueOpt initialState), lastDeps = None\<rparr>)"

text \<open>
  The reducer the hook passes to \<^verbatim>\<open>useReducer\<close>; \<open>None\<close> for the override stands for an
  omitted argument, whose default is \<open>initialStateReducer\<close>.
\<close>

definition hookReducer :: "('n \<Rightarrow> string) \<Rightarrow> 'n stateReducer option \<Rightarrow> 'n stateReducer" where
  "hookReducer numberToString stateReducer =
     inputControlStateReducer numberToString
       (case stateReducer of None \<Rightarrow> initialStateReducer | Some f \<Rightarrow> f)"

text \<open>\<^verbatim>\<open>dispatch\<close>: the reducer is applied to the state; the next render sees the result.\<close>

definition dispatch :: "'n stateReducer \<Rightarrow> 'n action \<Rightarrow> 'n controller \<Rightarrow> 'n controller" where
  "dispatch reducer a c = c\<lparr>state := reducer (state c) a\<rparr>"

text \<open>
  The bound dispatchers of lines 155 to 215. Each stores the event in \<^verbatim>\<open>refEvent\<close> and then
  dispatches.
\<close>

definition createChangeEvent ::
    "actionType \<Rightarrow> 'n stateReducer \<Rightarrow> 'n jsval \<Rightarrow> event option \<Rightarrow> 'n controller \<Rightarrow> 'n controller" where
  "createChangeEvent ty reducer nextValue ev c =
     dispatch reducer
       (Tagged ty \<lparr>payloadValue = nextValue, payloadError = JUndefined, payloadEvent = ev\<rparr>)
       (c\<lparr>refEvent := ev\<rparr>)"

definition createKeyEvent ::
    "actionType \<Rightarrow> 'n stateReducer \<Rightarrow> event option \<Rightarrow> 'n controller \<Rightarrow> 'n controller" where
  "createKeyEvent ty reducer ev c =
     dispatch reducer
       (Tagged ty \<lparr>payloadValue = JUndefined, payloadError = JUndefined, payloadEvent = ev\<rparr>)
       (c\<lparr>refEvent := ev\<rparr>)"

definition createDragEvent ::
    "actionType \<Rightarrow> 'n stateReducer \<Rightarrow> 'n payload \<Rightarrow> 'n controller \<Rightarrow> 'n controller" where
  "createDragEvent ty reducer p c =
     dispatch reducer (Tagged ty p) (c\<lparr>refEvent := payloadEvent p\<rparr>)"

definition invalidate ::
    "'n stateReducer \<Rightarrow> 'n jsval \<Rightarrow> event option \<Rightarrow> 'n controller \<Rightarrow> 'n controller" where
  "invalidate reducer err ev c =
     dispatch reducer
       (Tagged INVALIDATE \<lparr>payloadValue = JUndefined, payloadError = err, payloadEvent = ev\<rparr>)
       (c\<lparr>refEvent := ev\<rparr>)"

text \<open>
  Whether \<^verbatim>\<open>state.value\<close>, and whether \<^verbatim>\<open>initialState.value\<close>, differs from its value at the
  last render: the test by which an effect with that dependency is run. On the first render
  every effect runs.
\<close>

definition stateValueChanged :: "'n controller \<Rightarrow> bool" where
  "stateValueChanged c =
     (case lastDeps c of None \<Rightarrow> True | Some d \<Rightarrow> fst d \<noteq> value' (state c))"

definition valuePropChanged :: "'n jsval \<Rightarrow> 'n controller \<Rightarrow> bool" where
  "valuePropChanged propValue c =
     (case lastDeps c of None \<Rightarrow> True | Some d \<Rightarrow> snd d \<noteq> propValue)"

text \<open>
  What the layout effects of one render leave behind: the hook's memory, the calls made to
  \<^verbatim>\<open>onChangeHandler\<close> (the value and the event passed), and the action passed to
  \<^verbatim>\<open>dispatch\<close> by the third effect, if any.
\<close>

record 'n outcome =
  controllerAfter :: "'n controller"
  onChangeCalls :: "('n jsval \<times> event) list"
  dispatched :: "'n action option"

text \<open>
  The three layout effects of lines 220 to 246, in their order, after a render in which
  \<^verbatim>\<open>initialState.value\<close> is \<open>propValue\<close>. The first has no dependency array and runs after
  every render; the second runs when \<^verbatim>\<open>state.value\<close> changed, the third when
  \<^verbatim>\<open>initialState.value\<close> changed.
\<close>

definition layoutEffects :: "'n jsval \<Rightarrow> 'n controller \<Rightarrow> 'n outcome" where
  "layoutEffects propValue c =
     (let c1 = c\<lparr>currentState := state c, currentValueProp := propValue\<rparr>;
          fired =
            (if stateValueChanged c then
               (case refEvent c1 of
                  None \<Rightarrow> None
                | Some ev \<Rightarrow>
                    if value' (state c1) \<noteq> currentValueProp c1 \<and> \<not> isDirty (currentState c1)
                    then Some (nullish (value' (state c1)) (JStr ''''), ev)
                    else None)
             else None);
          c2 = (case fired of None \<Rightarrow> c1 | Some call \<Rightarrow> c1\<lparr>refEvent := None\<rparr>);
          resync =
            (if valuePropChanged propValue c then
               (if refEvent c2 = None \<and> propValue \<noteq> value' (currentState c2)
                   \<and> \<not> isDirty (currentState c2)
                then Some (Untagged propValue) else None)
             else None)
      in \<lparr>controllerAfter = c2\<lparr>lastDeps := Some (value' (state c), propValue)\<rparr>,
          onChangeCalls = (case fired of None \<Rightarrow> [] | Some call \<Rightarrow> [call]),
          dispatched = resync\<rparr>)"

subsection \<open>An override that clamps\<close>

text \<open>
  An example of a caller-supplied override, as in the spec's fourth scenario: a value that
  is a decimal numeral is clamped to the range from 0 to 100; anything else is left alone.
\<close>

definition digitValue :: "char \<Rightarrow> nat option" where
  "digitValue ch =
     (let n = (of_char ch :: nat) in if 48 \<le> n \<and> n \<le> 57 then Some (n - 48) else None)"

fun parseDigits :: "nat \<Rightarrow> string \<Rightarrow> nat option" where
  "parseDigits acc [] = Some acc"
| "parseDigits acc (ch # cs) =
     (case digitValue ch of None \<Rightarrow> None | Some d \<Rightarrow> parseDigits (10 * acc + d) cs)"

definition parseNatural :: "string \<Rightarrow> nat option" where
  "parseNatural s = (if s = [] then None else parseDigits 0 s)"

definition clampValue :: "'n jsval \<Rightarrow> 'n jsval" where
  "clampValue v =
     (case v of
        JStr s \<Rightarrow>
          (case parseNatural s of
             Some n \<Rightarrow> if 100 < n then JStr ''100'' else v
           | None \<Rightarrow>
               (case s of
                  [] \<Rightarrow> v
                | ch # ds \<Rightarrow>
                    if ch = CHR ''-'' then
                      (case parseNatural ds of Some n \<Rightarrow> JStr ''0'' | None \<Rightarrow> v)
                    else v))
      | _ \<Rightarrow> v)"

definition clampStateReducer :: "'n stateReducer" where
  "clampStateReducer s a = s\<lparr>value' := clampValue (value' s)\<rparr>"

subsection \<open>Concrete instances\<close>

text \<open>
  An instance of the number parameter: natural numbers, converted to a string as decimal
  numerals.
\<close>

function decimal :: "nat \<Rightarrow> string" where
  "decimal n =
     (if n < 10 then [char_of (48 + n)]
      else decimal (n div 10) @ [char_of (48 + n mod 10)])"
  by pat_completeness auto
termination
  by (relation "measure id") auto

declare decimal.simps [simp del]

text \<open>
  Defaults for the fields of \<open>initialInputControlState\<close> that the spec leaves open, and the
  reducer of a hook that is given no override.
\<close>

definition exampleDefaults :: "nat inputState" where
  "exampleDefaults =
     initialInputControlState
       \<lparr>error = JNull, initialValue = JStr '''', isDirty = False, isDragging = False,
        isPressEnterToChange = False, value' = JStr ''''\<rparr>"

definition exampleReducer :: "nat stateReducer" where
  "exampleReducer = hookReducer decimal None"

definition seed :: "nat jsval \<Rightarrow> bool \<Rightarrow> nat partialState" where
  "seed v enter =
     \<lparr>errorOpt = None, initialValueOpt = None, isDirtyOpt = None, isDraggingOpt = None,
      isPressEnterToChangeOpt = Some enter, valueOpt = Some v\<rparr>"

text \<open>
  A widget whose owner keeps the value prop at "5" whatever the change callback reports.
  It is mounted with the value "5"; the user types "56" (event 1), presses Enter (event 2),
  and then deletes the "6" (event 3). Each step is followed by a render and its layout
  effects.
\<close>

definition ownerKeepsMounted :: "nat controller" where
  "ownerKeepsMounted =
     controllerAfter (layoutEffects (JStr ''5'') (mount exampleDefaults (Some (seed (JStr ''5'') False))))"

definition ownerKeepsTyped56 :: "nat controller" where
  "ownerKeepsTyped56 =
     createChangeEvent CHANGE exampleReducer (JStr ''56'') (Some 1) ownerKeepsMounted"

definition ownerKeepsEnter :: "nat controller" where
  "ownerKeepsEnter =
     createKeyEvent PRESS_ENTER exampleReducer (Some 2)
       (controllerAfter (layoutEffects (JStr ''5'') ownerKeepsTyped56))"

definition ownerKeepsTyped5 :: "nat controller" where
  "ownerKeepsTyped5 =
     createChangeEvent CHANGE exampleReducer (JStr ''5'') (Some 3)
       (controllerAfter (layoutEffects (JStr ''5'') ownerKeepsEnter))"

text \<open>
  A widget in commit-on-enter mode, mounted with the value "10", in which the user types
  "1" (event 1) without committing.
\<close>

definition enterModeTyped1 :: "nat controller" where
  "enterModeTyped1 =
     createChangeEvent CHANGE exampleReducer (JStr ''1'') (Some 1)
       (controllerAfter
          (layoutEffects (JStr ''10'') (mount exampleDefaults (Some (seed (JStr ''10'') True)))))"

section \<open>Properties of the reducer\<close>

lemmas reducer_defs = baseTransition_def inputControlStateReducer_def initialStateReducer_def
  nullish_def Let_def

lemma clampValue_150: "clampValue (JStr ''150'') = JStr ''100''"
  by (simp add: clampValue_def parseNatural_def digitValue_def)

text \<open>
  C1. For every state and every tagged action the composed reducer returns the override
  applied to the post-base state and the action: the base rules run first, the override
  second. A hook that is given no override uses the identity, so its reducer is the base
  transition. With the clamping override, a change to "150" gives the post-base value "150"
  and the post-override value "100"; in the reverse order the value would stay "150".
\<close>

theorem override_after_base:
  "inputControlStateReducer ts f s (Tagged ty p) =
     f (baseTransition ts s (Tagged ty p)) (Tagged ty p)
   \<and> hookReducer ts None s (Tagged ty p) = baseTransition ts s (Tagged ty p)
   \<and> initialStateReducer s a = s
   \<and> value' (baseTransition ts s
        (Tagged CHANGE \<lparr>payloadValue = JStr ''150'', payloadError = JUndefined,
           payloadEvent = ev\<rparr>)) = JStr ''150''
   \<and> value' (inputControlStateReducer ts clampStateReducer s
        (Tagged CHANGE \<lparr>payloadValue = JStr ''150'', payloadError = JUndefined,
           payloadEvent = ev\<rparr>)) = JStr ''100''
   \<and> value' (baseTransition ts
        (clampStateReducer s
           (Tagged CHANGE \<lparr>payloadValue = JStr ''150'', payloadError = JUndefined,
              payloadEvent = ev\<rparr>))
        (Tagged CHANGE \<lparr>payloadValue = JStr ''150'', payloadError = JUndefined,
           payloadEvent = ev\<rparr>)) = JStr ''150''"
  by (simp add: reducer_defs hookReducer_def clampStateReducer_def clampValue_150)

text \<open>
  C2. The change action sets \<open>error\<close> to null and \<open>value\<close> to the payload value; it sets
  \<open>isDirty\<close> to true when \<open>isPressEnterToChange\<close> is active and leaves it as it was
  otherwise. On the state constructed from the defaults, where \<open>isPressEnterToChange\<close> is
  false, a change to "abc" yields value "abc", \<open>isDirty\<close> false and \<open>error\<close> null.
\<close>

theorem change_rule:
  "baseTransition ts s (Tagged CHANGE p) =
     s\<lparr>error := JNull, value' := payloadValue p,
       isDirty := (if isPressEnterToChange s then True else isDirty s)\<rparr>
   \<and> isPressEnterToChange (mergeInitialState (initialInputControlState rest) None) = False
   \<and> baseTransition ts (mergeInitialState (initialInputControlState rest) None)
        (Tagged CHANGE \<lparr>payloadValue = JStr ''abc'', payloadError = JUndefined,
           payloadEvent = ev\<rparr>) =
      (mergeInitialState (initialInputControlState rest) None)
        \<lparr>value' := JStr ''abc'', isDirty := False, error := JNull\<rparr>"
  by (simp add: reducer_defs mergeInitialState_def initialInputControlState_def spread_def
      asPartial_def readProp_def)

text \<open>
  C3. Commit is idempotent: dispatching the same commit twice in succession ends in the
  state that dispatching it once ends in, and in both \<open>isDirty\<close> is false and \<open>value\<close> is
  the payload value.
\<close>

theorem commit_idempotent:
  "baseTransition ts (baseTransition ts s (Tagged COMMIT p)) (Tagged COMMIT p) =
     baseTransition ts s (Tagged COMMIT p)
   \<and> isDirty (baseTransition ts s (Tagged COMMIT p)) = False
   \<and> value' (baseTransition ts s (Tagged COMMIT p)) = payloadValue p
   \<and> isDirty (baseTransition ts (baseTransition ts s (Tagged COMMIT p)) (Tagged COMMIT p)) =
       False
   \<and> value' (baseTransition ts (baseTransition ts s (Tagged COMMIT p)) (Tagged COMMIT p)) =
       payloadValue p"
  by (simp add: reducer_defs)

lemma initialValue_base_change:
  "initialValue (baseTransition ts s (Tagged CHANGE p)) = initialValue s"
  by (simp add: reducer_defs)

lemma initialValue_foldl_change:
  "initialValue (foldl (baseTransition ts) s (map (Tagged CHANGE) ps)) = initialValue s"
  by (induction ps arbitrary: s) (simp_all add: initialValue_base_change)

lemma initialValue_merge:
  "initialValue (mergeInitialState d arg) =
     (case arg of None \<Rightarrow> value' d | Some init \<Rightarrow> readProp (valueOpt init))"
  by (simp add: mergeInitialState_def asPartial_def readProp_def split: option.splits)

lemma value_base_reset:
  "value' (baseTransition ts s (Tagged RESET p)) = nullish (payloadValue p) (initialValue s)"
  by (simp add: reducer_defs)

text \<open>
  C4. The reset action sets \<open>error\<close> to null and \<open>isDirty\<close> to false, and sets \<open>value\<close> to the
  payload value if there is one (neither undefined nor null), otherwise to
  \<open>initialValue\<close>. \<open>mergeInitialState\<close> captures \<open>initialValue\<close> from the seed value: the
  \<open>value\<close> of the initial state passed, or that of the defaults when none is passed. A reset
  without a payload value, after any sequence of change actions on the constructed state,
  restores \<open>value\<close> to that \<open>initialValue\<close>.
\<close>

theorem reset_rule:
  "baseTransition ts s (Tagged RESET p) =
     s\<lparr>error := JNull, isDirty := False,
       value' := (if payloadValue p = JUndefined \<or> payloadValue p = JNull
                  then initialValue s else payloadValue p)\<rparr>
   \<and> initialValue (mergeInitialState d (Some init)) = readProp (valueOpt init)
   \<and> initialValue (mergeInitialState d None) = value' d
   \<and> value' (baseTransition ts
        (foldl (baseTransition ts) (mergeInitialState d arg) (map (Tagged CHANGE) ps))
        (Tagged RESET (p\<lparr>payloadValue := JUndefined\<rparr>))) =
      initialValue (mergeInitialState d arg)"
  by (simp add: value_base_reset initialValue_foldl_change initialValue_merge)
     (simp add: reducer_defs)

text \<open>
  C5. The invalidate action sets \<open>error\<close> to the payload error and changes nothing else: in
  particular \<open>value\<close> and \<open>isDirty\<close> are those of the state before.
\<close>

theorem invalidate_rule:
  "baseTransition ts s (Tagged INVALIDATE p) = s\<lparr>error := payloadError p\<rparr>
   \<and> value' (baseTransition ts s (Tagged INVALIDATE p)) = value' s
   \<and> isDirty (baseTransition ts s (Tagged INVALIDATE p)) = isDirty s"
  by (simp add: reducer_defs)

text \<open>
  C6. An untagged value assignment does not reach the switch or the override: whatever the
  override is, the result is the state with only \<open>value\<close> replaced, so \<open>isDirty\<close> and
  \<open>error\<close> are unchanged. The new \<open>value\<close> is always a string: the incoming value, or the
  state's value when the incoming one is absent, is coerced, so that undefined and null
  become the empty string, a string stays as it is (the empty string included) and a number
  is converted to a string. With an absent incoming value and a string as the state's
  value, the state is unchanged.
\<close>

theorem untagged_rule:
  "inputControlStateReducer ts f s (Untagged v) = baseTransition ts s (Untagged v)
   \<and> isDirty (inputControlStateReducer ts f s (Untagged v)) = isDirty s
   \<and> error (inputControlStateReducer ts f s (Untagged v)) = error s
   \<and> inputControlStateReducer ts f s (Untagged v) =
       s\<lparr>value' := JStr (case (if v = JUndefined then value' s else v) of
                           JUndefined \<Rightarrow> '''' | JNull \<Rightarrow> '''' | JStr x \<Rightarrow> x | JNum n \<Rightarrow> ts n)\<rparr>
   \<and> inputControlStateReducer ts f s (Untagged (JStr '''')) = s\<lparr>value' := JStr ''''\<rparr>
   \<and> inputControlStateReducer ts f s (Untagged (JStr x)) = s\<lparr>value' := JStr x\<rparr>
   \<and> inputControlStateReducer ts f s (Untagged (JNum n)) = s\<lparr>value' := JStr (ts n)\<rparr>
   \<and> inputControlStateReducer ts f (s\<lparr>value' := JStr x\<rparr>) (Untagged JUndefined) =
       s\<lparr>value' := JStr x\<rparr>"
  by (simp add: reducer_defs templateString_def split: jsval.splits)

lemma decimal_42: "decimal 42 = ''42''"
  by code_simp

theorem untagged_rule_witness:
  "value' (inputControlStateReducer decimal clampStateReducer exampleDefaults
     (Untagged (JNum 42))) = JStr ''42''
   \<and> value' (inputControlStateReducer decimal clampStateReducer
        (exampleDefaults\<lparr>value' := JStr ''150''\<rparr>) (Untagged JUndefined)) = JStr ''150''"
proof -
  have number:
    "inputControlStateReducer decimal clampStateReducer exampleDefaults (Untagged (JNum 42)) =
       exampleDefaults\<lparr>value' := JStr (decimal 42)\<rparr>"
    using untagged_rule [of decimal clampStateReducer exampleDefaults "JNum 42" "''150''" 42]
    by blast
  have absent:
    "inputControlStateReducer decimal clampStateReducer
       (exampleDefaults\<lparr>value' := JStr ''150''\<rparr>) (Untagged JUndefined) =
       exampleDefaults\<lparr>value' := JStr ''150''\<rparr>"
    using untagged_rule [of decimal clampStateReducer exampleDefaults "JNum 42" "''150''" 42]
    by blast
  show ?thesis
    by (simp add: number absent decimal_42)
qed








text \<open>
  C9. From a state with \<open>isDirty\<close> true, key-up, key-down and commit lead to a state with
  \<open>isDirty\<close> false, whereas change leaves \<open>isDirty\<close> true when \<open>isPressEnterToChange\<close> is
  active.
\<close>

theorem dirty_cleared:
  "isDirty s \<Longrightarrow>
     \<not> isDirty (baseTransition ts s (Tagged PRESS_UP p))
     \<and> \<not> isDirty (baseTransition ts s (Tagged PRESS_DOWN p))
     \<and> \<not> isDirty (baseTransition ts s (Tagged COMMIT p))
     \<and> (isPressEnterToChange s \<longrightarrow> isDirty (baseTransition ts s (Tagged CHANGE p)))"
  by (simp add: reducer_defs)

theorem dirty_cleared_witness:
  "isDirty (exampleDefaults\<lparr>isDirty := True, isPressEnterToChange := True\<rparr>)
   \<and> isPressEnterToChange (exampleDefaults\<lparr>isDirty := True, isPressEnterToChange := True\<rparr>)
   \<and> \<not> isDirty (baseTransition decimal
        (exampleDefaults\<lparr>isDirty := True, isPressEnterToChange := True\<rparr>)
        (Tagged PRESS_UP \<lparr>payloadValue = JStr ''1'', payloadError = JUndefined,
           payloadEvent = Some 1\<rparr>))
   \<and> \<not> isDirty (baseTransition decimal
        (exampleDefaults\<lparr>isDirty := True, isPressEnterToChange := True\<rparr>)
        (Tagged PRESS_DOWN \<lparr>payloadValue = JStr ''1'', payloadError = JUndefined,
           payloadEvent = Some 1\<rparr>))
   \<and> \<not> isDirty (baseTransition decimal
        (exampleDefaults\<lparr>isDirty := True, isPressEnterToChange := True\<rparr>)
        (Tagged COMMIT \<lparr>payloadValue = JStr ''1'', payloadError = JUndefined,
           payloadEvent = Some 1\<rparr>))
   \<and> isDirty (baseTransition decimal
        (exampleDefaults\<lparr>isDirty := True, isPressEnterToChange := True\<rparr>)
        (Tagged CHANGE \<lparr>payloadValue = JStr ''1'', payloadError = JUndefined,
           payloadEvent = Some 1\<rparr>))"
  using dirty_cleared [of "exampleDefaults\<lparr>isDirty := True, isPressEnterToChange := True\<rparr>"
      decimal "\<lparr>payloadValue = JStr ''1'', payloadError = JUndefined, payloadEvent = Some 1\<rparr>"]
  by simp

text \<open>
  C10. The commit action leaves \<open>error\<close> unchanged. So does every tagged action other than
  change and reset, which set it to null, and invalidate, which sets it to the payload
  error.
\<close>

theorem commit_keeps_error:
  "error (baseTransition ts s (Tagged COMMIT p)) = error s
   \<and> error (baseTransition ts s (Tagged PRESS_UP p)) = error s
   \<and> error (baseTransition ts s (Tagged PRESS_DOWN p)) = error s
   \<and> error (baseTransition ts s (Tagged PRESS_ENTER p)) = error s
   \<and> error (baseTransition ts s (Tagged DRAG_START p)) = error s
   \<and> error (baseTransition ts s (Tagged DRAG p)) = error s
   \<and> error (baseTransition ts s (Tagged DRAG_END p)) = error s
   \<and> error (baseTransition ts s (Tagged (OTHER t) p)) = error s
   \<and> error (baseTransition ts s (Tagged INVALIDATE p)) = payloadError p
   \<and> error (baseTransition ts s (Tagged CHANGE p)) = JNull
   \<and> error (baseTransition ts s (Tagged RESET p)) = JNull"
  by (simp add: reducer_defs)

section \<open>Properties of the hook's synchronization\<close>

lemmas hook_defs = layoutEffects_def stateValueChanged_def valuePropChanged_def
  createChangeEvent_def createKeyEvent_def dispatch_def mount_def mergeInitialState_def
  spread_def readProp_def asPartial_def initialInputControlState_def hookReducer_def

lemmas example_defs = exampleDefaults_def exampleReducer_def seed_def

lemma ownerKeepsMounted_eq:
  "ownerKeepsMounted =
     \<lparr>state = \<lparr>error = JNull, initialValue = JStr ''5'', isDirty = False, isDragging = False,
                isPressEnterToChange = False, value' = JStr ''5''\<rparr>,
      refEvent = None,
      currentState = \<lparr>error = JNull, initialValue = JStr ''5'', isDirty = False,
                isDragging = False, isPressEnterToChange = False, value' = JStr ''5''\<rparr>,
      currentValueProp = JStr ''5'', lastDeps = Some (JStr ''5'', JStr ''5'')\<rparr>"
  by (simp add: ownerKeepsMounted_def hook_defs example_defs reducer_defs)

lemma ownerKeepsTyped56_eq:
  "ownerKeepsTyped56 =
     \<lparr>state = \<lparr>error = JNull, initialValue = JStr ''5'', isDirty = False, isDragging = False,
                isPressEnterToChange = False, value' = JStr ''56''\<rparr>,
      refEvent = Some 1,
      currentState = \<lparr>error = JNull, initialValue = JStr ''5'', isDirty = False,
                isDragging = False, isPressEnterToChange = False, value' = JStr ''5''\<rparr>,
      currentValueProp = JStr ''5'', lastDeps = Some (JStr ''5'', JStr ''5'')\<rparr>"
  by (simp add: ownerKeepsTyped56_def ownerKeepsMounted_eq createChangeEvent_def dispatch_def
      hookReducer_def example_defs reducer_defs)

lemma ownerKeepsEnter_eq:
  "ownerKeepsEnter =
     \<lparr>state = \<lparr>error = JNull, initialValue = JStr ''5'', isDirty = False, isDragging = False,
                isPressEnterToChange = False, value' = JStr ''56''\<rparr>,
      refEvent = Some 2,
      currentState = \<lparr>error = JNull, initialValue = JStr ''5'', isDirty = False,
                isDragging = False, isPressEnterToChange = False, value' = JStr ''56''\<rparr>,
      currentValueProp = JStr ''5'', lastDeps = Some (JStr ''56'', JStr ''5'')\<rparr>"
  by (simp add: ownerKeepsEnter_def ownerKeepsTyped56_eq hook_defs example_defs reducer_defs)

lemma ownerKeepsTyped5_eq:
  "ownerKeepsTyped5 =
     \<lparr>state = \<lparr>error = JNull, initialValue = JStr ''5'', isDirty = False, isDragging = False,
                isPressEnterToChange = False, value' = JStr ''5''\<rparr>,
      refEvent = Some 3,
      currentState = \<lparr>error = JNull, initialValue = JStr ''5'', isDirty = False,
                isDragging = False, isPressEnterToChange = False, value' = JStr ''56''\<rparr>,
      currentValueProp = JStr ''5'', lastDeps = Some (JStr ''56'', JStr ''5'')\<rparr>"
  by (simp add: ownerKeepsTyped5_def ownerKeepsEnter_eq hook_defs example_defs reducer_defs)

lemma enterModeTyped1_eq:
  "enterModeTyped1 =
     \<lparr>state = \<lparr>error = JNull, initialValue = JStr ''10'', isDirty = True, isDragging = False,
                isPressEnterToChange = True, value' = JStr ''1''\<rparr>,
      refEvent = Some 1,
      currentState = \<lparr>error = JNull, initialValue = JStr ''10'', isDirty = False,
                isDragging = False, isPressEnterToChange = True, value' = JStr ''10''\<rparr>,
      currentValueProp = JStr ''10'', lastDeps = Some (JStr ''10'', JStr ''10'')\<rparr>"
  by (simp add: enterModeTyped1_def hook_defs example_defs reducer_defs)

text \<open>
  C8, as stated, fails. The owner of the widget keeps the value prop at "5". After the user
  has typed "56" and then deleted the "6", the internal value has changed since the last
  render (from "56" to "5"), an originating event is recorded and the widget is not dirty,
  yet the callback is not invoked, because the internal value equals the value prop. If
  "changed" is read as "differs from the value prop" instead, the render after the Enter
  press is the counterexample: the internal value "56" differs from the prop, an event is
  recorded, the widget is not dirty, and the callback is not invoked, because the internal
  value is the one of the render before and the effect does not run.
\<close>

theorem callback_condition_counterexample:
  "stateValueChanged ownerKeepsTyped5
   \<and> refEvent ownerKeepsTyped5 = Some 3
   \<and> isDirty (state ownerKeepsTyped5) = False
   \<and> onChangeCalls (layoutEffects (JStr ''5'') ownerKeepsTyped5) = []
   \<and> value' (state ownerKeepsEnter) = JStr ''56''
   \<and> refEvent ownerKeepsEnter = Some 2
   \<and> isDirty (state ownerKeepsEnter) = False
   \<and> onChangeCalls (layoutEffects (JStr ''5'') ownerKeepsEnter) = []"
  by (simp add: ownerKeepsTyped5_eq ownerKeepsEnter_eq layoutEffects_def stateValueChanged_def
      valuePropChanged_def Let_def)

lemma fired_iff:
  "(onChangeCalls (layoutEffects pv c) \<noteq> []) =
     (stateValueChanged c \<and> refEvent c \<noteq> None \<and> value' (state c) \<noteq> pv
      \<and> \<not> isDirty (state c))"
  by (auto simp add: layoutEffects_def Let_def split: option.splits)

lemma calls_at_most_one: "length (onChangeCalls (layoutEffects pv c)) \<le> 1"
  by (simp add: layoutEffects_def Let_def split: option.splits)

lemma dirty_suppresses:
  "isDirty (state c) \<Longrightarrow>
     onChangeCalls (layoutEffects pv c) = [] \<and> dispatched (layoutEffects pv c) = None"
  by (simp add: layoutEffects_def Let_def split: option.splits)

lemma after_effects_unchanged:
  "\<not> stateValueChanged (controllerAfter (layoutEffects pv c))"
  by (simp add: layoutEffects_def stateValueChanged_def Let_def split: option.splits)

lemma fired_clears_event:
  "onChangeCalls (layoutEffects pv c) \<noteq> [] \<Longrightarrow>
     refEvent (controllerAfter (layoutEffects pv c)) = None"
  by (simp add: layoutEffects_def Let_def split: option.splits if_splits)

text \<open>
  C8, amended. In the layout effects of a render, the change callback is invoked exactly
  when the internal value changed since the last render, an originating event was
  recorded, the widget is not dirty, and the internal value differs from the value prop of
  this render. It is invoked at most once; when it is, the recorded event is cleared, and
  the effects of a further render of the same state invoke nothing, whatever the value
  prop is then. While \<open>isDirty\<close> is true neither the callback is invoked nor a resync is
  dispatched.
\<close>

theorem callback_condition:
  "((onChangeCalls (layoutEffects pv c) \<noteq> []) =
      (stateValueChanged c \<and> refEvent c \<noteq> None \<and> \<not> isDirty (state c)
       \<and> value' (state c) \<noteq> pv))
   \<and> length (onChangeCalls (layoutEffects pv c)) \<le> 1
   \<and> (onChangeCalls (layoutEffects pv c) \<noteq> [] \<longrightarrow>
        refEvent (controllerAfter (layoutEffects pv c)) = None
        \<and> onChangeCalls (layoutEffects pv' (controllerAfter (layoutEffects pv c))) = [])
   \<and> (isDirty (state c) \<longrightarrow>
        onChangeCalls (layoutEffects pv c) = [] \<and> dispatched (layoutEffects pv c) = None)"
proof -
  have again: "onChangeCalls (layoutEffects pv' (controllerAfter (layoutEffects pv c))) = []"
    using fired_iff [of pv' "controllerAfter (layoutEffects pv c)"]
      after_effects_unchanged [of pv c] by blast
  show ?thesis
    using fired_iff [of pv c] calls_at_most_one [of pv c] fired_clears_event [of pv c]
      dirty_suppresses [of c pv] again by blast
qed

theorem callback_condition_witness:
  "onChangeCalls (layoutEffects (JStr ''5'') ownerKeepsTyped56) = [(JStr ''56'', 1)]
   \<and> refEvent (controllerAfter (layoutEffects (JStr ''5'') ownerKeepsTyped56)) = None
   \<and> onChangeCalls (layoutEffects (JStr ''7'')
        (controllerAfter (layoutEffects (JStr ''5'') ownerKeepsTyped56))) = []
   \<and> isDirty (state enterModeTyped1)
   \<and> onChangeCalls (layoutEffects (JStr ''20'') enterModeTyped1) = []
   \<and> dispatched (layoutEffects (JStr ''20'') enterModeTyped1) = None"
proof -
  have fired: "onChangeCalls (layoutEffects (JStr ''5'') ownerKeepsTyped56) = [(JStr ''56'', 1)]"
    by (simp add: ownerKeepsTyped56_eq layoutEffects_def stateValueChanged_def
        valuePropChanged_def nullish_def Let_def)
  have dirty: "isDirty (state enterModeTyped1)"
    by (simp add: enterModeTyped1_eq)
  show ?thesis
    using fired dirty
      callback_condition [of "JStr ''5''" ownerKeepsTyped56 "JStr ''7''"]
      callback_condition [of "JStr ''20''" enterModeTyped1 "JStr ''7''"]
    by simp
qed

end
